theory Spec2Isabelle
  imports Main
begin

section \<open>Python values\<close>

text \<open>
  Exceptions are values. \<open>MissingVariables vs\<close> stands for the
  \<open>ValueError(f"Missing required variables: {missing_vars}")\<close> of
  \<open>generate_policy\<close>, with the list kept as a list instead of its \<open>repr\<close>.
  \<open>OtherException\<close> is any exception that is neither a \<open>ValueError\<close>,
  an \<open>AttributeError\<close> nor a botocore \<open>ClientError\<close>.
\<close>

datatype py_exception =
    ValueError string
  | MissingVariables "string list"
  | AttributeError string
  | ClientError
  | OtherException

type_synonym 'a result = "py_exception + 'a"

fun is_ValueError :: "py_exception \<Rightarrow> bool" where
  "is_ValueError (ValueError m) = True"
| "is_ValueError (MissingVariables vs) = True"
| "is_ValueError e = False"

text \<open>\<open>datetime\<close> values are microseconds since the epoch.\<close>

type_synonym datetime = int

definition timedelta_hours :: "int \<Rightarrow> int" where
  "timedelta_hours h = h * 3600 * 1000000"

text \<open>\<open>str(n)\<close> of an integer, as an f-string renders it.\<close>

definition digit_char :: "int \<Rightarrow> char" where
  "digit_char d = char_of (48 + d)"

function str_digits :: "int \<Rightarrow> string" where
  "str_digits n =
     (if n < 10 then [digit_char n] else str_digits (n div 10) @ [digit_char (n mod 10)])"
  by pat_completeness auto
termination
  by (relation "measure nat") auto

declare str_digits.simps [simp del]

definition str_int :: "int \<Rightarrow> string" where
  "str_int i = (if i < 0 then CHR ''-'' # str_digits (- i) else str_digits i)"

text \<open>
  \<open>s.replace(old, new)\<close>: the occurrences of \<open>old\<close> are found from left to right
  without overlap; with an empty \<open>old\<close> Python puts \<open>new\<close> before every character and
  at the end.
\<close>

function py_replace :: "string \<Rightarrow> string \<Rightarrow> string \<Rightarrow> string" where
  "py_replace old new s =
     (if old = [] then new @ concat (map (\<lambda>c. c # new) s)
      else if s = [] then []
      else if take (length old) s = old then new @ py_replace old new (drop (length old) s)
      else hd s # py_replace old new (tl s))"
  by pat_completeness auto
termination
  by (relation "measure (\<lambda>(old, new, s). length s)") auto

declare py_replace.simps [simp del]

text \<open>
  \<open>re.findall(r'\$\{([^}]+)\}', content)\<close>: at a \<open>${\<close> the class \<open>[^}]+\<close> takes every
  character up to the next \<open>}\<close>; the match needs at least one such character and the
  closing brace, and the search goes on after the match, or one character further when
  there is no match at this place.
\<close>

function re_findall_placeholders :: "string \<Rightarrow> string list" where
  "re_findall_placeholders s =
     (case s of
        [] \<Rightarrow> []
      | c # rest \<Rightarrow>
          (if c = CHR ''$'' \<and> take 1 rest = ''{'' then
             (let body = takeWhile (\<lambda>x. x \<noteq> CHR ''}'') (tl rest);
                  after = dropWhile (\<lambda>x. x \<noteq> CHR ''}'') (tl rest)
              in if body \<noteq> [] \<and> after \<noteq> []
                 then body # re_findall_placeholders (tl after)
                 else re_findall_placeholders rest)
           else re_findall_placeholders rest))"
  by pat_completeness auto
termination
proof (relation "measure length", goal_cases)
  case 1
  show ?case by simp
next
  case (2 s c rest body after)
  have "length (dropWhile (\<lambda>x. x \<noteq> CHR ''}'') (tl rest)) \<le> length (tl rest)"
    by (rule length_dropWhile_le)
  with 2 show ?case by (cases after) auto
next
  case (3 s c rest body after)
  then show ?case by simp
next
  case (4 s c rest)
  then show ?case by simp
qed

declare re_findall_placeholders.simps [simp del]

section \<open>models.py\<close>

datatype permission_tier = READ_ONLY | DEVELOPER | ADMIN | BREAK_GLASS

datatype session_status = PENDING | ACTIVE | EXPIRED | REVOKED | FAILED

text \<open>
  The fields of each class keep their names behind a prefix for the class
  (\<open>rq_\<close> RoleRequest, \<open>rs_\<close> RoleSession, \<open>al_\<close> AuditLog, \<open>pt_\<close> PolicyTemplate,
  \<open>cr_\<close> Credentials), since several classes share field names.
\<close>

record role_request =
  rq_project_id :: string
  rq_user_id :: string
  rq_permission_tier :: permission_tier
  rq_duration_hours :: int
  rq_reason :: string
  rq_ip_address :: "string option"
  rq_mfa_used :: bool
  rq_external_id :: "string option"

definition validate_duration :: "permission_tier \<Rightarrow> int \<Rightarrow> int result" where
  "validate_duration tier v =
     (if tier = BREAK_GLASS \<and> v > 1 then Inl (ValueError ''Break-glass access limited to 1 hour maximum'')
      else if tier = ADMIN \<and> v > 8 then Inl (ValueError ''Admin access limited to 8 hours maximum'')
      else Inr v)"

text \<open>
  The constructor \<open>RoleRequest(...)\<close>: the field constraints \<open>ge=1, le=36\<close> and
  \<open>min_length=10\<close>, and the validator of \<open>duration_hours\<close>. Any failure raises a
  pydantic \<open>ValidationError\<close>, a \<open>ValueError\<close>.
\<close>

definition RoleRequest ::
  "string \<Rightarrow> string \<Rightarrow> permission_tier \<Rightarrow> int \<Rightarrow> string \<Rightarrow> string option \<Rightarrow> bool \<Rightarrow> string option
     \<Rightarrow> role_request result" where
  "RoleRequest p u tier d r ip mfa ext =
     (if d < 1 \<or> d > 36 then Inl (ValueError ''duration_hours'')
      else case validate_duration tier d of
        Inl e \<Rightarrow> Inl e
      | Inr v \<Rightarrow>
          if length r < 10 then Inl (ValueError ''reason'')
          else Inr \<lparr>rq_project_id = p, rq_user_id = u, rq_permission_tier = tier,
                    rq_duration_hours = v, rq_reason = r, rq_ip_address = ip,
                    rq_mfa_used = mfa, rq_external_id = ext\<rparr>)"

datatype meta_value = MStr string | MBool bool | MNone

record role_session =
  rs_project_id :: string
  rs_session_id :: string
  rs_user_id :: string
  rs_role_arn :: string
  rs_permission_tier :: permission_tier
  rs_requested_at :: datetime
  rs_expires_at :: datetime
  rs_status :: session_status
  rs_request_metadata :: "(string \<times> meta_value) list"

record credentials =
  cr_access_key_id :: string
  cr_secret_access_key :: string
  cr_session_token :: string
  cr_expiration :: datetime
  cr_role_arn :: string
  cr_session_name :: string

record policy_template =
  pt_name :: string
  pt_permission_tier :: permission_tier
  pt_template_content :: string
  pt_variables :: "string list"
  pt_version :: string

text \<open>
  \<open>TrustPolicy.create_for_external_id\<close>: one Allow statement for \<open>sts:AssumeRole\<close>
  whose conditions are kept as fields; the MFA age condition is there only when MFA is
  required.
\<close>

record trust_policy =
  tp_external_id :: "string option"
  tp_departments :: "string list"
  tp_source_ips :: "string list"
  tp_mfa_auth_age :: "string option"

definition create_for_external_id ::
  "string option \<Rightarrow> string list \<Rightarrow> string list \<Rightarrow> bool \<Rightarrow> trust_policy" where
  "create_for_external_id ext departments ip_ranges mfa =
     \<lparr>tp_external_id = ext, tp_departments = departments, tp_source_ips = ip_ranges,
      tp_mfa_auth_age = (if mfa then Some ''3600'' else None)\<rparr>"

record audit_log =
  al_timestamp :: datetime
  al_request_id :: string
  al_user_id :: string
  al_action :: string
  al_permission_tier :: "permission_tier option"
  al_session_duration :: "int option"
  al_source_ip :: "string option"
  al_mfa_used :: bool
  al_result :: string
  al_error_details :: "py_exception option"

section \<open>config.py\<close>

record settings =
  aws_account_id :: "string option"
  mfa_required :: bool
  max_session_duration :: int
  allowed_ip_ranges :: "string list"
  allowed_departments :: "string list"
  break_glass_notification_topic :: "string option"

definition default_settings :: settings where
  "default_settings =
     \<lparr>aws_account_id = None, mfa_required = True, max_session_duration = 3600,
      allowed_ip_ranges = [''10.0.0.0/8'', ''172.16.0.0/12'', ''192.168.0.0/16''],
      allowed_departments = [''Engineering'', ''DevOps'', ''Security''],
      break_glass_notification_topic = None\<rparr>"

definition get_role_arn :: "string option \<Rightarrow> string \<Rightarrow> string" where
  "get_role_arn account_id role_name =
     ''arn:aws:iam::'' @ (case account_id of None \<Rightarrow> ''None'' | Some a \<Rightarrow> a) @ '':role/'' @ role_name"

text \<open>
  The standard library is a parameter: \<open>ipaddress.ip_address\<close> and
  \<open>ipaddress.ip_network\<close> (\<open>None\<close> where they raise \<open>ValueError\<close>), the test
  \<open>ip in network\<close>, and \<open>hashlib.sha256(data.encode()).hexdigest()\<close>.
\<close>

record ('ip, 'net) stdlib =
  ip_address :: "string \<Rightarrow> 'ip option"
  ip_network :: "string \<Rightarrow> 'net option"
  contains :: "'net \<Rightarrow> 'ip \<Rightarrow> bool"
  sha256_hexdigest :: "string \<Rightarrow> string"

text \<open>\<open>int(time.time() // 3600)\<close> of a clock reading in microseconds.\<close>

definition hour_window :: "datetime \<Rightarrow> int" where
  "hour_window t = t div (3600 * 1000000)"

definition get_external_id :: "('ip, 'net) stdlib \<Rightarrow> datetime \<Rightarrow> string \<Rightarrow> string \<Rightarrow> string" where
  "get_external_id lib t project user =
     take 16 (sha256_hexdigest lib (project @ '':'' @ user @ '':'' @ str_int (hour_window t)))"

section \<open>The AWS services\<close>

text \<open>
  The services behind boto3 are one explicit state. The sessions table holds the
  items that \<open>_item_to_session\<close> reads back as \<open>RoleSession\<close> records, keyed by
  \<open>ProjectId\<close> and \<open>SessionId\<close>. \<open>fault\<close> tells which calls fail for a reason of
  their own and with which exception; \<open>ClientError\<close> is what the source handles call
  by call. A call that DynamoDB or botocore refuses for what it is asked fails whatever
  \<open>fault\<close> says.
  \<open>datetime.utcnow()\<close> reads \<open>clock\<close>, which stands still during one operation, and
  \<open>uuid4()\<close> takes the next value of \<open>uuid_source\<close>.
\<close>

datatype aws_call =
    PutItem | GetItem | UpdateItem | Query | AuditPutItem
  | GetObject | CreateRole | PutRolePolicy | StsAssumeRole | SnsPublish

datatype s3_object = Stored policy_template | Malformed

datatype effect = Allow | Deny

record statement =
  st_effect :: effect
  st_action :: "string list"
  st_resource :: string

type_synonym policy = "statement list"

record iam_role =
  ir_role_name :: string
  ir_assume_role_policy_document :: trust_policy
  ir_description :: string
  ir_max_session_duration :: int
  ir_tags :: "(string \<times> string) list"
  ir_permissions_boundary :: "policy option"
  ir_role_policies :: "(string \<times> string) list"

record sts_response =
  sr_access_key_id :: string
  sr_secret_access_key :: string
  sr_session_token :: string
  sr_expiration :: datetime

record notification =
  nt_topic_arn :: string
  nt_subject :: string
  nt_user_id :: string
  nt_project_id :: string
  nt_session_id :: string
  nt_timestamp :: datetime
  nt_expires_at :: datetime

record world =
  clock :: datetime
  uuid_source :: "nat \<Rightarrow> string"
  uuid_next :: nat
  sessions_table :: "role_session list"
  audit_table :: "audit_log list"
  s3_templates :: "permission_tier \<Rightarrow> s3_object option"
  iam_roles :: "iam_role list"
  sts_reply :: sts_response
  sns_published :: "notification list"
  fault :: "aws_call \<Rightarrow> py_exception option"

definition uuid4 :: "world \<Rightarrow> string \<times> world" where
  "uuid4 w = (uuid_source w (uuid_next w), w\<lparr>uuid_next := Suc (uuid_next w)\<rparr>)"

section \<open>database.py\<close>

definition session_key :: "role_session \<Rightarrow> string \<times> string" where
  "session_key s = (rs_project_id s, rs_session_id s)"

text \<open>\<open>put_item\<close> replaces the item that has the same key.\<close>

definition put_item :: "role_session \<Rightarrow> role_session list \<Rightarrow> role_session list" where
  "put_item s tbl = filter (\<lambda>t. session_key t \<noteq> session_key s) tbl @ [s]"

text \<open>
  \<open>update_item\<close> with \<open>SET #status = :status\<close>, and \<open>RequestMetadata = :metadata\<close> when
  metadata are given. The update carries no condition on the stored status. On a key
  that is not in the table DynamoDB creates an item that has the key and the status
  only, which \<open>_item_to_session\<close> cannot read back: the table of readable sessions stays
  as it is.
\<close>

definition update_item ::
  "string \<times> string \<Rightarrow> session_status \<Rightarrow> (string \<times> meta_value) list option
     \<Rightarrow> role_session list \<Rightarrow> role_session list" where
  "update_item k st metadata tbl =
     map (\<lambda>t. if session_key t = k
              then (case metadata of
                      None \<Rightarrow> t\<lparr>rs_status := st\<rparr>
                    | Some m \<Rightarrow> t\<lparr>rs_status := st, rs_request_metadata := m\<rparr>)
              else t) tbl"

text \<open>
  The key attributes of the table are the ones of every \<open>Key={...}\<close> of this module,
  and \<open>put_item\<close> needs both of them in the item. \<open>create_session\<close> writes
  \<open>session.dict()\<close>, whose attributes are the field names of \<open>RoleSession\<close>:
  DynamoDB answers with a \<open>ValidationException\<close>, a \<open>ClientError\<close>, the function
  returns \<open>False\<close> and nothing is stored.
\<close>

definition table_key_attributes :: "string list" where
  "table_key_attributes = [''ProjectId'', ''SessionId'']"

definition RoleSession_dict_attributes :: "string list" where
  "RoleSession_dict_attributes =
     [''project_id'', ''session_id'', ''user_id'', ''role_arn'', ''permission_tier'',
      ''requested_at'', ''expires_at'', ''status'', ''request_metadata'']"

definition put_item_accepts :: "string list \<Rightarrow> bool" where
  "put_item_accepts attributes = list_all (\<lambda>k. k \<in> set attributes) table_key_attributes"

definition create_session :: "world \<Rightarrow> role_session \<Rightarrow> bool result \<times> world" where
  "create_session w session =
     (case fault w PutItem of
        Some e \<Rightarrow> if e = ClientError then (Inr False, w) else (Inl e, w)
      | None \<Rightarrow>
          if put_item_accepts RoleSession_dict_attributes
          then (Inr True, w\<lparr>sessions_table := put_item session (sessions_table w)\<rparr>)
          else (Inr False, w))"

definition get_session :: "world \<Rightarrow> string \<Rightarrow> string \<Rightarrow> role_session option result" where
  "get_session w project session_id =
     (case fault w GetItem of
        None \<Rightarrow> Inr (find (\<lambda>t. session_key t = (project, session_id)) (sessions_table w))
      | Some e \<Rightarrow> if e = ClientError then Inr None else Inl e)"

text \<open>\<open>if metadata:\<close> is false for \<open>None\<close> and for the empty dictionary.\<close>

definition update_session_status ::
  "world \<Rightarrow> string \<Rightarrow> string \<Rightarrow> session_status \<Rightarrow> (string \<times> meta_value) list option
     \<Rightarrow> bool result \<times> world" where
  "update_session_status w project session_id st metadata =
     (case fault w UpdateItem of
        None \<Rightarrow>
          (Inr True,
           w\<lparr>sessions_table :=
               update_item (project, session_id) st
                 (if metadata = None \<or> metadata = Some [] then None else metadata)
                 (sessions_table w)\<rparr>)
      | Some e \<Rightarrow> if e = ClientError then (Inr False, w) else (Inl e, w))"

text \<open>
  The query of \<open>get_expired_sessions\<close>: the key condition \<open>ExpiresAt < now\<close> (the ISO
  strings compare as the instants do) with the filter \<open>Status <> EXPIRED\<close>. A \<open>Query\<close>
  needs an equality on the partition key among its key conditions; this one has the
  comparison \<open>lt\<close> alone, so DynamoDB answers with a \<open>ValidationException\<close>, a
  \<open>ClientError\<close>, and the function returns the empty list.
\<close>

datatype key_operator = KeyEq | KeyLt

definition query_accepts :: "key_operator list \<Rightarrow> bool" where
  "query_accepts key_conditions = (KeyEq \<in> set key_conditions)"

definition expired_query :: "datetime \<Rightarrow> role_session \<Rightarrow> bool" where
  "expired_query current_time t = (rs_expires_at t < current_time \<and> rs_status t \<noteq> EXPIRED)"

definition get_expired_sessions :: "world \<Rightarrow> role_session list result" where
  "get_expired_sessions w =
     (case fault w Query of
        Some e \<Rightarrow> if e = ClientError then Inr [] else Inl e
      | None \<Rightarrow>
          if query_accepts [KeyLt]
          then Inr (filter (expired_query (clock w)) (sessions_table w))
          else Inr [])"

definition log_audit_event :: "world \<Rightarrow> audit_log \<Rightarrow> bool result \<times> world" where
  "log_audit_event w entry =
     (case fault w AuditPutItem of
        None \<Rightarrow> (Inr True, w\<lparr>audit_table := audit_table w @ [entry]\<rparr>)
      | Some e \<Rightarrow> if e = ClientError then (Inr False, w) else (Inl e, w))"

section \<open>policy_manager.py\<close>

text \<open>
  \<open>get_policy_template\<close> reads \<open>templates/<tier>.json\<close>: a missing object is a
  \<open>ClientError\<close> (\<open>NoSuchKey\<close>) and gives \<open>None\<close>; an object that \<open>json.loads\<close> or the
  \<open>PolicyTemplate\<close> constructor rejects raises a \<open>ValueError\<close>, which this function
  does not catch.
\<close>

definition get_policy_template :: "world \<Rightarrow> permission_tier \<Rightarrow> policy_template option result" where
  "get_policy_template w tier =
     (case fault w GetObject of
        Some e \<Rightarrow> if e = ClientError then Inr None else Inl e
      | None \<Rightarrow>
          (case s3_templates w tier of
             None \<Rightarrow> Inr None
           | Some Malformed \<Rightarrow> Inl (ValueError ''template_data'')
           | Some (Stored t) \<Rightarrow> Inr (Some t)))"

text \<open>
  The variables are a dictionary, here the list of its items in iteration order. The
  loop of \<open>generate_policy\<close> replaces one variable after the other in the text that the
  earlier replacements produced.
\<close>

fun substitute :: "(string \<times> string) list \<Rightarrow> string \<Rightarrow> string" where
  "substitute [] policy_content = policy_content"
| "substitute ((var_name, var_value) # rest) policy_content =
     substitute rest (py_replace (''${'' @ var_name @ ''}'') var_value policy_content)"

definition find_missing_variables :: "string \<Rightarrow> (string \<times> string) list \<Rightarrow> string list" where
  "find_missing_variables content variables =
     filter (\<lambda>var. var \<notin> set (map fst variables)) (re_findall_placeholders content)"

definition generate_policy :: "policy_template \<Rightarrow> (string \<times> string) list \<Rightarrow> string result" where
  "generate_policy template variables =
     (let policy_content = substitute variables (pt_template_content template);
          missing_vars = find_missing_variables policy_content variables
      in if missing_vars \<noteq> [] then Inl (MissingVariables missing_vars) else Inr policy_content)"

definition create_trust_policy ::
  "string option \<Rightarrow> string list \<Rightarrow> string list \<Rightarrow> bool \<Rightarrow> trust_policy" where
  "create_trust_policy ext departments ip_ranges mfa =
     create_for_external_id ext departments ip_ranges mfa"

text \<open>
  \<open>create_permission_boundary\<close>: the dictionary \<open>boundary_policies\<close>, one document per
  tier, as the list of its statements (the \<open>json.dumps\<close> is left out; an \<open>Action\<close> that
  is the single string \<open>"*"\<close> is the one-element list).
\<close>

definition create_permission_boundary :: "permission_tier \<Rightarrow> policy" where
  "create_permission_boundary tier =
     (case tier of
        READ_ONLY \<Rightarrow>
          [\<lparr>st_effect = Allow,
            st_action = [''s3:GetObject'', ''s3:ListBucket'', ''ec2:Describe*'', ''iam:Get*'', ''iam:List*''],
            st_resource = ''*''\<rparr>,
           \<lparr>st_effect = Deny,
            st_action = [''iam:*'', ''s3:PutObject'', ''s3:DeleteObject'', ''ec2:Modify*'', ''ec2:Create*'',
                         ''ec2:Delete*''],
            st_resource = ''*''\<rparr>]
      | DEVELOPER \<Rightarrow>
          [\<lparr>st_effect = Allow,
            st_action = [''s3:*'', ''ec2:*'', ''lambda:*'', ''iam:Get*'', ''iam:List*'', ''iam:PassRole''],
            st_resource = ''*''\<rparr>,
           \<lparr>st_effect = Deny,
            st_action = [''iam:CreateRole'', ''iam:DeleteRole'', ''iam:AttachRolePolicy'',
                         ''iam:DetachRolePolicy'', ''iam:PutRolePolicy'', ''iam:DeleteRolePolicy'',
                         ''kms:DeleteKey'', ''kms:ScheduleKeyDeletion''],
            st_resource = ''*''\<rparr>]
      | ADMIN \<Rightarrow>
          [\<lparr>st_effect = Allow, st_action = [''*''], st_resource = ''*''\<rparr>,
           \<lparr>st_effect = Deny,
            st_action = [''iam:DeleteAccountPasswordPolicy'', ''iam:DeleteAccountAlias'',
                         ''iam:DeleteAccount'', ''organizations:LeaveOrganization'',
                         ''organizations:DeleteOrganization''],
            st_resource = ''*''\<rparr>]
      | BREAK_GLASS \<Rightarrow>
          [\<lparr>st_effect = Allow, st_action = [''*''], st_resource = ''*''\<rparr>])"

text \<open>The module-level dictionary \<open>DEFAULT_TEMPLATES\<close>; break-glass has no entry.\<close>

definition read_only_template_content :: string where
  \<open>read_only_template_content = ''{
    "Version": "2012-10-17",
    "Statement": [
        {
            "Effect": "Allow",
            "Action": [
                "s3:GetObject",
                "s3:ListBucket"
            ],
            "Resource": [
                "arn:aws:s3:::${projectId}-*",
                "arn:aws:s3:::${projectId}-*/*"
            ]
        },
        {
            "Effect": "Allow",
            "Action": [
                "ec2:Describe*",
                "iam:Get*",
                "iam:List*"
            ],
            "Resource": "*"
        }
    ]
}''\<close>

definition developer_template_content :: string where
  \<open>developer_template_content = ''{
    "Version": "2012-10-17",
    "Statement": [
        {
            "Effect": "Allow",
            "Action": [
                "s3:*"
            ],
            "Resource": [
                "arn:aws:s3:::${projectId}-*",
                "arn:aws:s3:::${projectId}-*/*"
            ]
        },
        {
            "Effect": "Allow",
            "Action": [
                "ec2:*",
                "lambda:*",
                "iam:Get*",
                "iam:List*",
                "iam:PassRole"
            ],
            "Resource": "*"
        }
    ]
}''\<close>

definition admin_template_content :: string where
  \<open>admin_template_content = ''{
    "Version": "2012-10-17",
    "Statement": [
        {
            "Effect": "Allow",
            "Action": "*",
            "Resource": "*"
        }
    ]
}''\<close>

definition DEFAULT_TEMPLATES :: "permission_tier \<Rightarrow> policy_template option" where
  "DEFAULT_TEMPLATES tier =
     (case tier of
        READ_ONLY \<Rightarrow>
          Some \<lparr>pt_name = ''read-only-template'', pt_permission_tier = READ_ONLY,
                pt_template_content = read_only_template_content,
                pt_variables = [''projectId''], pt_version = ''1.0''\<rparr>
      | DEVELOPER \<Rightarrow>
          Some \<lparr>pt_name = ''developer-template'', pt_permission_tier = DEVELOPER,
                pt_template_content = developer_template_content,
                pt_variables = [''projectId''], pt_version = ''1.0''\<rparr>
      | ADMIN \<Rightarrow>
          Some \<lparr>pt_name = ''admin-template'', pt_permission_tier = ADMIN,
                pt_template_content = admin_template_content,
                pt_variables = [], pt_version = ''1.0''\<rparr>
      | BREAK_GLASS \<Rightarrow> None)"

text \<open>
  \<open>role_vendor.py\<close> imports the instance \<open>policy_manager = PolicyManager()\<close> and reads
  \<open>policy_manager.DEFAULT_TEMPLATES\<close>. Attribute lookup on the instance finds what
  \<open>__init__\<close> sets and what the class defines; anything else raises
  \<open>AttributeError\<close>.
\<close>

definition PolicyManager_attributes :: "string list" where
  "PolicyManager_attributes =
     [''s3'', ''iam'', ''get_policy_template'', ''generate_policy'', ''create_trust_policy'',
      ''create_permission_boundary'', ''validate_policy'', ''_find_missing_variables'',
      ''upload_template'']"

definition policy_manager_DEFAULT_TEMPLATES :: "(permission_tier \<Rightarrow> policy_template option) result" where
  "policy_manager_DEFAULT_TEMPLATES =
     (if ''DEFAULT_TEMPLATES'' \<in> set PolicyManager_attributes then Inr DEFAULT_TEMPLATES
      else Inl (AttributeError ''DEFAULT_TEMPLATES''))"

section \<open>role_vendor.py\<close>

text \<open>
  The private methods keep their names without the leading underscore;
  \<open>vendor_log_audit_event\<close> is \<open>RoleVendor._log_audit_event\<close>. A method whose body
  is a \<open>try\<close> block has a second definition \<open>..._try\<close> for the block, and its
  handlers are the case distinction on what the block raised.
\<close>

fun in_allowed_ranges :: "('ip, 'net) stdlib \<Rightarrow> 'ip \<Rightarrow> string list \<Rightarrow> bool result" where
  "in_allowed_ranges lib ip [] = Inr False"
| "in_allowed_ranges lib ip (cidr # rest) =
     (case ip_network lib cidr of
        None \<Rightarrow> Inl (ValueError cidr)
      | Some net \<Rightarrow> if contains lib net ip then Inr True else in_allowed_ranges lib ip rest)"

definition is_ip_allowed_try :: "('ip, 'net) stdlib \<Rightarrow> settings \<Rightarrow> string \<Rightarrow> bool result" where
  "is_ip_allowed_try lib cfg addr =
     (case ip_address lib addr of
        None \<Rightarrow> Inl (ValueError addr)
      | Some ip \<Rightarrow> in_allowed_ranges lib ip (allowed_ip_ranges cfg))"

definition is_ip_allowed :: "('ip, 'net) stdlib \<Rightarrow> settings \<Rightarrow> string \<Rightarrow> bool result" where
  "is_ip_allowed lib cfg addr =
     (case is_ip_allowed_try lib cfg addr of
        Inr b \<Rightarrow> Inr b
      | Inl e \<Rightarrow> if is_ValueError e then Inr False else Inl e)"

text \<open>\<open>request.ip_address and ...\<close>: \<open>None\<close> and the empty string skip the check.\<close>

definition validate_request :: "('ip, 'net) stdlib \<Rightarrow> settings \<Rightarrow> role_request \<Rightarrow> bool result" where
  "validate_request lib cfg request =
     (case (case rq_ip_address request of
              None \<Rightarrow> Inr True
            | Some addr \<Rightarrow> if addr = [] then Inr True else is_ip_allowed lib cfg addr) of
        Inl e \<Rightarrow> Inl e
      | Inr ip_ok \<Rightarrow>
          if \<not> ip_ok then Inr False
          else if mfa_required cfg \<and> \<not> rq_mfa_used request then Inr False
          else if rq_duration_hours request > max_session_duration cfg div 3600 then Inr False
          else Inr True)"

definition vendor_log_audit_event ::
  "world \<Rightarrow> string \<Rightarrow> string \<Rightarrow> permission_tier \<Rightarrow> string \<Rightarrow> int option \<Rightarrow> py_exception option
     \<Rightarrow> unit result \<times> world" where
  "vendor_log_audit_event w user action tier res session_duration error_details =
     (let (rid, w1) = uuid4 w;
          entry = \<lparr>al_timestamp = clock w1, al_request_id = rid, al_user_id = user,
                   al_action = action, al_permission_tier = Some tier,
                   al_session_duration = session_duration, al_source_ip = None,
                   al_mfa_used = False, al_result = res, al_error_details = error_details\<rparr>
      in case log_audit_event w1 entry of
           (Inl e, w2) \<Rightarrow> (Inl e, w2)
         | (Inr logged, w2) \<Rightarrow> (Inr (), w2))"

definition create_session_record :: "world \<Rightarrow> role_request \<Rightarrow> role_session option \<times> world" where
  "create_session_record w request =
     (let expires_at = clock w + timedelta_hours (rq_duration_hours request);
          (sid, w1) = uuid4 w;
          session =
            \<lparr>rs_project_id = rq_project_id request, rs_session_id = sid,
             rs_user_id = rq_user_id request, rs_role_arn = [],
             rs_permission_tier = rq_permission_tier request,
             rs_requested_at = clock w1, rs_expires_at = expires_at, rs_status = PENDING,
             rs_request_metadata =
               [(''external_id'', case rq_external_id request of None \<Rightarrow> MNone | Some x \<Rightarrow> MStr x),
                (''ip_address'', case rq_ip_address request of None \<Rightarrow> MNone | Some x \<Rightarrow> MStr x),
                (''mfa_used'', MBool (rq_mfa_used request)),
                (''reason'', MStr (rq_reason request))]\<rparr>
      in case create_session w1 session of
           (Inl e, w2) \<Rightarrow> (None, w2)
         | (Inr created, w2) \<Rightarrow> if created then (Some session, w2) else (None, w2))"

text \<open>
  \<open>iam.create_role\<close> fails on a role name that exists, \<open>iam.put_role_policy\<close> on one
  that does not. \<open>create_role\<close> is called without \<open>PermissionsBoundary\<close>.
\<close>

definition iam_create_role :: "world \<Rightarrow> iam_role \<Rightarrow> unit result \<times> world" where
  "iam_create_role w r =
     (case fault w CreateRole of
        Some e \<Rightarrow> (Inl e, w)
      | None \<Rightarrow>
          if ir_role_name r \<in> set (map ir_role_name (iam_roles w)) then (Inl ClientError, w)
          else (Inr (), w\<lparr>iam_roles := iam_roles w @ [r]\<rparr>))"

definition iam_put_role_policy :: "world \<Rightarrow> string \<Rightarrow> string \<Rightarrow> string \<Rightarrow> unit result \<times> world" where
  "iam_put_role_policy w role_name policy_name document =
     (case fault w PutRolePolicy of
        Some e \<Rightarrow> (Inl e, w)
      | None \<Rightarrow>
          if role_name \<notin> set (map ir_role_name (iam_roles w)) then (Inl ClientError, w)
          else (Inr (),
                w\<lparr>iam_roles :=
                    map (\<lambda>r. if ir_role_name r = role_name
                             then r\<lparr>ir_role_policies :=
                                      (policy_name, document)
                                        # filter (\<lambda>p. fst p \<noteq> policy_name) (ir_role_policies r)\<rparr>
                             else r)
                      (iam_roles w)\<rparr>))"

definition tier_value :: "permission_tier \<Rightarrow> string" where
  "tier_value tier =
     (case tier of READ_ONLY \<Rightarrow> ''read-only'' | DEVELOPER \<Rightarrow> ''developer''
      | ADMIN \<Rightarrow> ''admin'' | BREAK_GLASS \<Rightarrow> ''break-glass'')"

text \<open>The template of the store, else the default one, else \<open>ValueError\<close>.\<close>

definition select_template :: "world \<Rightarrow> permission_tier \<Rightarrow> policy_template result" where
  "select_template w tier =
     (case get_policy_template w tier of
        Inl e \<Rightarrow> Inl e
      | Inr (Some template) \<Rightarrow> Inr template
      | Inr None \<Rightarrow>
          (case policy_manager_DEFAULT_TEMPLATES of
             Inl e \<Rightarrow> Inl e
           | Inr defaults \<Rightarrow>
               (case defaults tier of
                  None \<Rightarrow> Inl (ValueError ''No template found'')
                | Some template \<Rightarrow> Inr template)))"

text \<open>
  The \<open>ExpiresAt\<close> tag carries the instant as the decimal number of microseconds in
  place of its ISO rendering.
\<close>

definition create_temporary_role_try ::
  "world \<Rightarrow> settings \<Rightarrow> role_request \<Rightarrow> string \<Rightarrow> string result \<times> world" where
  "create_temporary_role_try w cfg request session_id =
     (let role_name = ''temp-role-'' @ rq_project_id request @ ''-'' @ take 8 session_id
      in case select_template w (rq_permission_tier request) of
           Inl e \<Rightarrow> (Inl e, w)
         | Inr template \<Rightarrow>
             (let policy_variables =
                    [(''projectId'', rq_project_id request), (''userId'', rq_user_id request),
                     (''sessionId'', session_id)]
              in case generate_policy template policy_variables of
                   Inl e \<Rightarrow> (Inl e, w)
                 | Inr policy_document \<Rightarrow>
                     (let trust =
                            create_trust_policy (rq_external_id request) (allowed_departments cfg)
                              (allowed_ip_ranges cfg) (mfa_required cfg);
                          role =
                            \<lparr>ir_role_name = role_name, ir_assume_role_policy_document = trust,
                             ir_description =
                               ''Temporary role for '' @ rq_user_id request @ '' on project ''
                                 @ rq_project_id request,
                             ir_max_session_duration = min 3600 (rq_duration_hours request * 3600),
                             ir_tags =
                               [(''Project'', rq_project_id request), (''User'', rq_user_id request),
                                (''SessionId'', session_id),
                                (''PermissionTier'', tier_value (rq_permission_tier request)),
                                (''CreatedBy'', ''iam-role-vendor''),
                                (''ExpiresAt'',
                                 str_int (clock w + timedelta_hours (rq_duration_hours request)))],
                             ir_permissions_boundary = None, ir_role_policies = []\<rparr>
                      in case iam_create_role w role of
                           (Inl e, w1) \<Rightarrow> (Inl e, w1)
                         | (Inr u, w1) \<Rightarrow>
                             (case iam_put_role_policy w1 role_name ''TemporaryAccessPolicy''
                                     policy_document of
                                (Inl e, w2) \<Rightarrow> (Inl e, w2)
                              | (Inr u2, w2) \<Rightarrow>
                                  (Inr (get_role_arn (aws_account_id cfg) role_name), w2)))))"

definition create_temporary_role ::
  "world \<Rightarrow> settings \<Rightarrow> role_request \<Rightarrow> string \<Rightarrow> string option \<times> world" where
  "create_temporary_role w cfg request session_id =
     (case create_temporary_role_try w cfg request session_id of
        (Inl e, w1) \<Rightarrow> (None, w1)
      | (Inr arn, w1) \<Rightarrow> (Some arn, w1))"

definition expire_session :: "world \<Rightarrow> role_session \<Rightarrow> unit result \<times> world" where
  "expire_session w session =
     (case update_session_status w (rs_project_id session) (rs_session_id session) EXPIRED None of
        (Inl e, w1) \<Rightarrow> (Inl e, w1)
      | (Inr updated, w1) \<Rightarrow> (Inr (), w1))"

definition send_break_glass_notification :: "world \<Rightarrow> settings \<Rightarrow> role_session \<Rightarrow> world" where
  "send_break_glass_notification w cfg session =
     (case break_glass_notification_topic cfg of
        None \<Rightarrow> w
      | Some topic \<Rightarrow>
          if topic = [] then w
          else (case fault w SnsPublish of
                  Some e \<Rightarrow> w
                | None \<Rightarrow>
                    w\<lparr>sns_published :=
                        sns_published w
                          @ [\<lparr>nt_topic_arn = topic, nt_subject = ''Break-Glass Access Alert'',
                              nt_user_id = rs_user_id session, nt_project_id = rs_project_id session,
                              nt_session_id = rs_session_id session, nt_timestamp = clock w,
                              nt_expires_at = rs_expires_at session\<rparr>]\<rparr>))"

text \<open>
  \<open>request_role\<close>. The request object is updated with the external id before the
  session record is made. The handler \<open>except Exception\<close> writes the FAILURE entry; the
  three \<open>return None\<close> of the block do not go through it.
\<close>

definition request_role_try ::
  "world \<Rightarrow> ('ip, 'net) stdlib \<Rightarrow> settings \<Rightarrow> role_request \<Rightarrow> role_session option result \<times> world" where
  "request_role_try w lib cfg request0 =
     (case validate_request lib cfg request0 of
        Inl e \<Rightarrow> (Inl e, w)
      | Inr valid \<Rightarrow>
          if \<not> valid then (Inr None, w)
          else
            (let external_id =
                   get_external_id lib (clock w) (rq_project_id request0) (rq_user_id request0);
                 request = request0\<lparr>rq_external_id := Some external_id\<rparr>
             in case create_session_record w request of
                  (None, w1) \<Rightarrow> (Inr None, w1)
                | (Some session, w1) \<Rightarrow>
                    (case create_temporary_role w1 cfg request (rs_session_id session) of
                       (None, w2) \<Rightarrow>
                         (case update_session_status w2 (rs_project_id session)
                                 (rs_session_id session) FAILED None of
                            (Inl e, w3) \<Rightarrow> (Inl e, w3)
                          | (Inr updated, w3) \<Rightarrow> (Inr None, w3))
                     | (Some role_arn, w2) \<Rightarrow>
                         (let session' = session\<lparr>rs_role_arn := role_arn, rs_status := ACTIVE\<rparr>
                          in case update_session_status w2 (rs_project_id session')
                                    (rs_session_id session') ACTIVE
                                    (Some [(''role_arn'', MStr role_arn)]) of
                               (Inl e, w3) \<Rightarrow> (Inl e, w3)
                             | (Inr updated, w3) \<Rightarrow>
                                 (case vendor_log_audit_event w3 (rq_user_id request)
                                         ''ROLE_REQUESTED'' (rq_permission_tier request) ''SUCCESS''
                                         (Some (rq_duration_hours request * 3600)) None of
                                    (Inl e, w4) \<Rightarrow> (Inl e, w4)
                                  | (Inr u, w4) \<Rightarrow> (Inr (Some session'), w4))))))"

definition request_role ::
  "world \<Rightarrow> ('ip, 'net) stdlib \<Rightarrow> settings \<Rightarrow> role_request \<Rightarrow> role_session option result \<times> world" where
  "request_role w lib cfg request =
     (case request_role_try w lib cfg request of
        (Inr r, w1) \<Rightarrow> (Inr r, w1)
      | (Inl e, w1) \<Rightarrow>
          (case vendor_log_audit_event w1 (rq_user_id request) ''ROLE_REQUESTED''
                  (rq_permission_tier request) ''FAILURE'' None (Some e) of
             (Inl e2, w2) \<Rightarrow> (Inl e2, w2)
           | (Inr u, w2) \<Rightarrow> (Inr None, w2)))"

text \<open>
  \<open>min(3600, (expires_at - now).total_seconds())\<close>: \<open>total_seconds()\<close> is a float (kept
  here as the number of microseconds), and \<open>min\<close> returns the integer 3600 unless the
  float is smaller.
\<close>

datatype py_number = PyInt int | PyFloat int

definition duration_seconds :: "datetime \<Rightarrow> datetime \<Rightarrow> py_number" where
  "duration_seconds expires_at now =
     (if expires_at - now < 3600 * 1000000 then PyFloat (expires_at - now) else PyInt 3600)"

text \<open>
  \<open>sts.assume_role\<close>: botocore validates the parameters before it sends anything and
  raises \<open>ParamValidationError\<close>, which is not a \<open>ClientError\<close>, when
  \<open>DurationSeconds\<close> is not an integer or \<open>ExternalId\<close> is not a string. Otherwise the
  call raises its fault or answers with the reply of the world.
\<close>

definition sts_assume_role ::
  "world \<Rightarrow> string \<Rightarrow> string \<Rightarrow> py_number \<Rightarrow> meta_value option \<Rightarrow> sts_response result" where
  "sts_assume_role w role_arn session_name duration external_id =
     (case duration of
        PyFloat seconds \<Rightarrow> Inl OtherException
      | PyInt seconds \<Rightarrow>
          (case external_id of
             Some (MStr token) \<Rightarrow>
               (case fault w StsAssumeRole of Some e \<Rightarrow> Inl e | None \<Rightarrow> Inr (sts_reply w))
           | _ \<Rightarrow> Inl OtherException))"

definition assume_role_try ::
  "world \<Rightarrow> role_session \<Rightarrow> string option \<Rightarrow> credentials result \<times> world" where
  "assume_role_try w session session_name0 =
     (if rs_status session \<noteq> ACTIVE then (Inl (ValueError ''Session is not active''), w)
      else if clock w > rs_expires_at session then
        (case expire_session w session of
           (Inl e, w1) \<Rightarrow> (Inl e, w1)
         | (Inr u, w1) \<Rightarrow> (Inl (ValueError ''Session has expired''), w1))
      else
        (let generated = ''temp-role-'' @ take 8 (rs_session_id session);
             session_name =
               (case session_name0 of None \<Rightarrow> generated
                | Some n \<Rightarrow> if n = [] then generated else n)
         in case sts_assume_role w (rs_role_arn session) session_name
                   (duration_seconds (rs_expires_at session) (clock w))
                   (map_of (rs_request_metadata session) ''external_id'') of
              Inl e \<Rightarrow> (Inl e, w)
            | Inr response \<Rightarrow>
                (let creds =
                       \<lparr>cr_access_key_id = sr_access_key_id response,
                        cr_secret_access_key = sr_secret_access_key response,
                        cr_session_token = sr_session_token response,
                        cr_expiration = sr_expiration response,
                        cr_role_arn = rs_role_arn session, cr_session_name = session_name\<rparr>
                 in case vendor_log_audit_event w (rs_user_id session) ''ROLE_ASSUMED''
                           (rs_permission_tier session) ''SUCCESS'' None None of
                      (Inl e, w1) \<Rightarrow> (Inl e, w1)
                    | (Inr u, w1) \<Rightarrow> (Inr creds, w1))))"

text \<open>
  The handler of \<open>ClientError\<close> writes the FAILURE entry; the handler of every other
  exception, the two \<open>ValueError\<close> of the block and the \<open>ParamValidationError\<close> of
  botocore among them, returns \<open>None\<close> only.
\<close>

definition assume_role ::
  "world \<Rightarrow> role_session \<Rightarrow> string option \<Rightarrow> credentials option result \<times> world" where
  "assume_role w session session_name =
     (case assume_role_try w session session_name of
        (Inr creds, w1) \<Rightarrow> (Inr (Some creds), w1)
      | (Inl e, w1) \<Rightarrow>
          if e = ClientError then
            (case vendor_log_audit_event w1 (rs_user_id session) ''ROLE_ASSUMED''
                    (rs_permission_tier session) ''FAILURE'' None (Some e) of
               (Inl e2, w2) \<Rightarrow> (Inl e2, w2)
             | (Inr u, w2) \<Rightarrow> (Inr None, w2))
          else (Inr None, w1))"

definition revoke_session_try :: "world \<Rightarrow> settings \<Rightarrow> string \<Rightarrow> string \<Rightarrow> bool result \<times> world" where
  "revoke_session_try w cfg project session_id =
     (case get_session w project session_id of
        Inl e \<Rightarrow> (Inl e, w)
      | Inr None \<Rightarrow> (Inr False, w)
      | Inr (Some session) \<Rightarrow>
          (case update_session_status w project session_id REVOKED None of
             (Inl e, w1) \<Rightarrow> (Inl e, w1)
           | (Inr success, w1) \<Rightarrow>
               if success then
                 (case vendor_log_audit_event w1 (rs_user_id session) ''ROLE_REVOKED''
                         (rs_permission_tier session) ''SUCCESS'' None None of
                    (Inl e, w2) \<Rightarrow> (Inl e, w2)
                  | (Inr u, w2) \<Rightarrow>
                      (Inr success,
                       if rs_permission_tier session = BREAK_GLASS
                       then send_break_glass_notification w2 cfg session else w2))
               else (Inr success, w1)))"

definition revoke_session :: "world \<Rightarrow> settings \<Rightarrow> string \<Rightarrow> string \<Rightarrow> bool \<times> world" where
  "revoke_session w cfg project session_id =
     (case revoke_session_try w cfg project session_id of
        (Inl e, w1) \<Rightarrow> (False, w1)
      | (Inr success, w1) \<Rightarrow> (success, w1))"

text \<open>The loop of \<open>cleanup_expired_sessions\<close> over the sessions that the query returned.\<close>

fun cleanup_loop :: "world \<Rightarrow> role_session list \<Rightarrow> int \<Rightarrow> int result \<times> world" where
  "cleanup_loop w [] cleaned_count = (Inr cleaned_count, w)"
| "cleanup_loop w (session # rest) cleaned_count =
     (case update_session_status w (rs_project_id session) (rs_session_id session) EXPIRED None of
        (Inl e, w1) \<Rightarrow> (Inl e, w1)
      | (Inr updated, w1) \<Rightarrow>
          if updated then
            (case vendor_log_audit_event w1 (rs_user_id session) ''ROLE_EXPIRED''
                    (rs_permission_tier session) ''SUCCESS'' None None of
               (Inl e, w2) \<Rightarrow> (Inl e, w2)
             | (Inr u, w2) \<Rightarrow> cleanup_loop w2 rest (cleaned_count + 1))
          else cleanup_loop w1 rest cleaned_count)"

definition cleanup_expired_sessions_try :: "world \<Rightarrow> int result \<times> world" where
  "cleanup_expired_sessions_try w =
     (case get_expired_sessions w of
        Inl e \<Rightarrow> (Inl e, w)
      | Inr expired_sessions \<Rightarrow> cleanup_loop w expired_sessions 0)"

definition cleanup_expired_sessions :: "world \<Rightarrow> int \<times> world" where
  "cleanup_expired_sessions w =
     (case cleanup_expired_sessions_try w of
        (Inl e, w1) \<Rightarrow> (0, w1)
      | (Inr cleaned_count, w1) \<Rightarrow> (cleaned_count, w1))"

section \<open>Reference notions and concrete inputs\<close>

text \<open>
  IAM matches an action against a pattern; the patterns of the boundary documents are
  plain names or end in one \<open>*\<close>. A document denies an action when a Deny statement
  lists a pattern that matches it.
\<close>

definition action_matches :: "string \<Rightarrow> string \<Rightarrow> bool" where
  "action_matches pat a =
     (pat = a \<or> (pat \<noteq> [] \<and> last pat = CHR ''*'' \<and> take (length pat - 1) a = butlast pat))"

definition denies :: "policy \<Rightarrow> string \<Rightarrow> bool" where
  "denies doc a =
     (\<exists>st \<in> set doc. st_effect st = Deny \<and> (\<exists>pat \<in> set (st_action st). action_matches pat a))"

text \<open>
  The self-escalation actions of the specification, "role/policy mutation, key
  deletion". Role and policy mutation: the IAM actions that create, delete or change a
  role, its trust policy, its attached or inline policies or its permissions boundary,
  and those that create, delete or change a managed policy or its versions. Key
  deletion: the KMS actions that delete a key or its material, with the name
  \<open>kms:DeleteKey\<close> that the source uses.
\<close>

definition role_policy_mutation_actions :: "string list" where
  "role_policy_mutation_actions =
     [''iam:CreateRole'', ''iam:DeleteRole'', ''iam:UpdateRole'', ''iam:UpdateAssumeRolePolicy'',
      ''iam:AttachRolePolicy'', ''iam:DetachRolePolicy'', ''iam:PutRolePolicy'',
      ''iam:DeleteRolePolicy'', ''iam:PutRolePermissionsBoundary'',
      ''iam:DeleteRolePermissionsBoundary'', ''iam:CreatePolicy'', ''iam:DeletePolicy'',
      ''iam:CreatePolicyVersion'', ''iam:DeletePolicyVersion'', ''iam:SetDefaultPolicyVersion'']"

definition key_deletion_actions :: "string list" where
  "key_deletion_actions =
     [''kms:ScheduleKeyDeletion'', ''kms:DeleteKey'', ''kms:DeleteImportedKeyMaterial'']"

definition self_escalation_actions :: "string list" where
  "self_escalation_actions = role_policy_mutation_actions @ key_deletion_actions"

text \<open>The maximum duration of each tier as the specification and the CLI table give it.\<close>

definition tier_max :: "permission_tier \<Rightarrow> int" where
  "tier_max tier = (case tier of READ_ONLY \<Rightarrow> 36 | DEVELOPER \<Rightarrow> 8 | ADMIN \<Rightarrow> 8 | BREAK_GLASS \<Rightarrow> 1)"

text \<open>
  A small instance of the library for the concrete evaluations: dotted-quad IPv4
  addresses as numbers, networks \<open>a.b.c.d/n\<close> without host bits, and a stand-in digest
  of 64 characters (not SHA-256).
\<close>

fun split_on :: "char \<Rightarrow> string \<Rightarrow> string list" where
  "split_on sep [] = [[]]"
| "split_on sep (c # cs) =
     (if c = sep then [] # split_on sep cs
      else (case split_on sep cs of [] \<Rightarrow> [[c]] | h # t \<Rightarrow> (c # h) # t))"

definition is_digit :: "char \<Rightarrow> bool" where
  "is_digit c = (48 \<le> (of_char c :: nat) \<and> (of_char c :: nat) \<le> 57)"

definition decimal_value :: "string \<Rightarrow> nat" where
  "decimal_value s = foldl (\<lambda>acc c. 10 * acc + (of_char c - 48)) 0 s"

definition parse_decimal :: "nat \<Rightarrow> string \<Rightarrow> nat option" where
  "parse_decimal bound s =
     (if s = [] \<or> length s > 3 \<or> \<not> list_all is_digit s \<or> (length s > 1 \<and> hd s = CHR ''0'') then None
      else if decimal_value s > bound then None else Some (decimal_value s))"

definition ipv4_address :: "string \<Rightarrow> int option" where
  "ipv4_address s =
     (let octets = map (parse_decimal 255) (split_on CHR ''.'' s)
      in if length octets = 4 \<and> list_all (\<lambda>v. v \<noteq> None) octets
         then Some (foldl (\<lambda>acc v. acc * 256 + int (the v)) 0 octets)
         else None)"

definition ipv4_network :: "string \<Rightarrow> (int \<times> nat) option" where
  "ipv4_network s =
     (let parts = split_on CHR ''/'' s
      in if length parts = 1 then map_option (\<lambda>a. (a, 32)) (ipv4_address (hd parts))
         else if length parts = 2 then
           (case ipv4_address (hd parts) of
              None \<Rightarrow> None
            | Some a \<Rightarrow>
                (case parse_decimal 32 (hd (tl parts)) of
                   None \<Rightarrow> None
                 | Some n \<Rightarrow> if a mod 2 ^ (32 - n) = 0 then Some (a, n) else None))
         else None)"

definition ipv4_contains :: "int \<times> nat \<Rightarrow> int \<Rightarrow> bool" where
  "ipv4_contains net ip = (ip div 2 ^ (32 - snd net) = fst net div 2 ^ (32 - snd net))"

definition padded_digest :: "string \<Rightarrow> string" where
  "padded_digest s = take 64 (s @ replicate 64 (CHR ''0''))"

definition ipv4_lib :: "(int, int \<times> nat) stdlib" where
  "ipv4_lib =
     \<lparr>ip_address = ipv4_address, ip_network = ipv4_network, contains = ipv4_contains,
      sha256_hexdigest = padded_digest\<rparr>"

text \<open>A configuration whose global ceiling is 36 hours, and an empty world at time 0.\<close>

definition settings_36h :: settings where
  "settings_36h = default_settings\<lparr>max_session_duration := 129600\<rparr>"

definition empty_world :: world where
  "empty_world =
     \<lparr>clock = 0, uuid_source = (\<lambda>n. ''uuid-0000-'' @ str_int (int n)), uuid_next = 0,
      sessions_table = [], audit_table = [], s3_templates = (\<lambda>tier. None), iam_roles = [],
      sts_reply = \<lparr>sr_access_key_id = ''AKIAEXAMPLE'', sr_secret_access_key = ''secret'',
                   sr_session_token = ''token'', sr_expiration = 3600000000\<rparr>,
      sns_published = [], fault = (\<lambda>c. None)\<rparr>"

definition developer_request :: role_request where
  "developer_request =
     \<lparr>rq_project_id = ''test-project'', rq_user_id = ''test-user'', rq_permission_tier = DEVELOPER,
      rq_duration_hours = 10, rq_reason = ''Testing the system'', rq_ip_address = None,
      rq_mfa_used = True, rq_external_id = None\<rparr>"

text \<open>
  The world whose template store holds, for every tier, a template with the content
  that the integration test uploads.
\<close>

definition uploaded_template :: "permission_tier \<Rightarrow> policy_template" where
  \<open>uploaded_template tier =
     \<lparr>pt_name = tier_value tier @ ''-template'', pt_permission_tier = tier,
      pt_template_content = ''{"Version": "2012-10-17", "Statement": [{"Effect": "Allow", "Action": ["s3:GetObject"], "Resource": "arn:aws:s3:::${projectId}-*"}]}'',
      pt_variables = [''projectId''], pt_version = ''1.0''\<rparr>\<close>

definition stocked_world :: world where
  "stocked_world = empty_world\<lparr>s3_templates := (\<lambda>tier. Some (Stored (uploaded_template tier)))\<rparr>"

text \<open>
  The request and the session of the unit tests (the session of the fixture is PENDING
  and lasts four hours), and worlds that hold the session in a given status at a time
  after its expiry.
\<close>

definition read_only_request :: role_request where
  "read_only_request =
     \<lparr>rq_project_id = ''test-project'', rq_user_id = ''test-user'', rq_permission_tier = READ_ONLY,
      rq_duration_hours = 4, rq_reason = ''Testing the system'', rq_ip_address = None,
      rq_mfa_used = True, rq_external_id = None\<rparr>"

definition sample_session :: role_session where
  "sample_session =
     \<lparr>rs_project_id = ''test-project'', rs_session_id = ''0b1f6c1e-7c1d-4a5e-9f57-2d8a6a1c9e11'',
      rs_user_id = ''test-user'',
      rs_role_arn = ''arn:aws:iam::123456789012:role/temp-role-test'',
      rs_permission_tier = READ_ONLY, rs_requested_at = 0, rs_expires_at = 14400000000,
      rs_status = PENDING, rs_request_metadata = []\<rparr>"

definition world_after_expiry :: "session_status \<Rightarrow> world" where
  "world_after_expiry st =
     empty_world\<lparr>clock := 14400000001, sessions_table := [sample_session\<lparr>rs_status := st\<rparr>]\<rparr>"

section \<open>Validation\<close>

lemma in_allowed_ranges_True:
  "in_allowed_ranges lib ip cidrs = Inr True \<Longrightarrow>
     \<exists>cidr \<in> set cidrs. \<exists>net. ip_network lib cidr = Some net \<and> contains lib net ip"
  by (induction cidrs) (auto split: option.splits if_splits)

lemma in_allowed_ranges_raises:
  "in_allowed_ranges lib ip cidrs = Inl e \<Longrightarrow> is_ValueError e"
  by (induction cidrs) (auto split: option.splits if_splits)

lemma is_ip_allowed_try_raises:
  "is_ip_allowed_try lib cfg addr = Inl e \<Longrightarrow> is_ValueError e"
  by (auto simp: is_ip_allowed_try_def split: option.splits dest: in_allowed_ranges_raises)

lemma is_ip_allowed_returns: "\<exists>b. is_ip_allowed lib cfg addr = Inr b"
  by (cases "is_ip_allowed_try lib cfg addr")
     (auto simp: is_ip_allowed_def dest: is_ip_allowed_try_raises)

lemma is_ip_allowed_True:
  assumes "is_ip_allowed lib cfg addr = Inr True"
  shows "\<exists>ip. ip_address lib addr = Some ip \<and>
           (\<exists>cidr \<in> set (allowed_ip_ranges cfg). \<exists>net. ip_network lib cidr = Some net \<and> contains lib net ip)"
proof -
  from assms have "is_ip_allowed_try lib cfg addr = Inr True"
    by (auto simp: is_ip_allowed_def split: sum.splits if_splits)
  then obtain ip where ip: "ip_address lib addr = Some ip"
    and "in_allowed_ranges lib ip (allowed_ip_ranges cfg) = Inr True"
    by (auto simp: is_ip_allowed_try_def split: option.splits)
  with in_allowed_ranges_True [of lib ip "allowed_ip_ranges cfg"] show ?thesis by simp
qed

lemma is_ip_allowed_unparseable:
  "ip_address lib addr = None \<Longrightarrow> is_ip_allowed lib cfg addr = Inr False"
  by (simp add: is_ip_allowed_def is_ip_allowed_try_def)

lemma validate_request_returns: "\<exists>b. validate_request lib cfg request = Inr b"
proof (cases "rq_ip_address request")
  case None
  then show ?thesis by (auto simp: validate_request_def)
next
  case (Some addr)
  obtain b where "is_ip_allowed lib cfg addr = Inr b"
    using is_ip_allowed_returns by blast
  with Some show ?thesis by (auto simp: validate_request_def)
qed

lemma validate_request_over_ceiling:
  assumes "rq_duration_hours request > max_session_duration cfg div 3600"
  shows "validate_request lib cfg request = Inr False"
proof -
  obtain b where b: "validate_request lib cfg request = Inr b"
    using validate_request_returns by blast
  have "\<not> b"
  proof
    assume "b"
    with b assms show False
      by (auto simp: validate_request_def split: sum.splits if_splits option.splits)
  qed
  with b show ?thesis by simp
qed

lemma RoleRequest_caps:
  assumes "RoleRequest p u tier d r ip mfa ext = Inr q"
  shows "1 \<le> d \<and> d \<le> 36 \<and> (tier = BREAK_GLASS \<longrightarrow> d \<le> 1) \<and> (tier = ADMIN \<longrightarrow> d \<le> 8)
         \<and> rq_duration_hours q = d \<and> rq_permission_tier q = tier"
  using assms
  by (auto simp: RoleRequest_def validate_duration_def split: if_splits)

lemma request_role_not_valid:
  assumes "validate_request lib cfg request = Inr False"
  shows "request_role w lib cfg request = (Inr None, w)"
  using assms by (simp add: request_role_def request_role_try_def)

text \<open>
  C10. The validator rejects every request whose duration exceeds
  \<open>max_session_duration // 3600\<close> hours. With the default of 3600 seconds the ceiling is
  one hour: a request of more than one hour is rejected whatever its tier, and
  \<open>request_role\<close> returns \<open>None\<close> without touching the services, although the
  constructor of \<open>RoleRequest\<close> accepts a read-only request of 36 hours.
\<close>

theorem C10_global_duration_ceiling:
  "(rq_duration_hours request > max_session_duration cfg div 3600
      \<longrightarrow> validate_request lib cfg request = Inr False)
   \<and> max_session_duration default_settings div 3600 = 1
   \<and> (rq_duration_hours request > 1
      \<longrightarrow> validate_request lib default_settings request = Inr False
          \<and> request_role w lib default_settings request = (Inr None, w))
   \<and> (length r \<ge> 10 \<longrightarrow> (\<exists>accepted. RoleRequest p u READ_ONLY 36 r ip mfa ext = Inr accepted
          \<and> rq_duration_hours accepted = 36))"
proof (intro conjI impI)
  assume "rq_duration_hours request > max_session_duration cfg div 3600"
  then show "validate_request lib cfg request = Inr False"
    by (rule validate_request_over_ceiling)
next
  show "max_session_duration default_settings div 3600 = 1"
    by (simp add: default_settings_def)
next
  assume "rq_duration_hours request > 1"
  then have "rq_duration_hours request > max_session_duration default_settings div 3600"
    by (simp add: default_settings_def)
  then show "validate_request lib default_settings request = Inr False"
    by (rule validate_request_over_ceiling)
next
  assume "rq_duration_hours request > 1"
  then have "rq_duration_hours request > max_session_duration default_settings div 3600"
    by (simp add: default_settings_def)
  then have "validate_request lib default_settings request = Inr False"
    by (rule validate_request_over_ceiling)
  then show "request_role w lib default_settings request = (Inr None, w)"
    by (rule request_role_not_valid)
next
  assume "length r \<ge> 10"
  then show "\<exists>accepted. RoleRequest p u READ_ONLY 36 r ip mfa ext = Inr accepted
      \<and> rq_duration_hours accepted = 36"
    by (simp add: RoleRequest_def validate_duration_def)
qed

theorem C10_global_duration_ceiling_witness:
  "rq_duration_hours developer_request > 1
   \<and> validate_request ipv4_lib default_settings developer_request = Inr False
   \<and> request_role empty_world ipv4_lib default_settings developer_request = (Inr None, empty_world)
   \<and> length ''quarterly audit review'' \<ge> 10
   \<and> (\<exists>accepted. RoleRequest ''p'' ''u'' READ_ONLY 36 ''quarterly audit review'' None True None
          = Inr accepted \<and> rq_duration_hours accepted = 36)"
  using C10_global_duration_ceiling
    [where request = developer_request and cfg = default_settings and lib = ipv4_lib
       and w = empty_world and r = "''quarterly audit review''" and p = "''p''" and u = "''u''"
       and ip = None and mfa = True and ext = None]
  by (simp add: developer_request_def)

text \<open>
  C1. The constructor rejects a break-glass request of more than 1 hour, an admin
  request of more than 8 hours and any request of more than 36 hours, and the validator
  rejects what exceeds the global ceiling; nothing bounds the developer tier at its 8
  hours. With a ceiling of 36 hours a developer request of 10 hours is constructed and
  passes validation, so that \<open>request_role\<close> goes on to create the session record.
\<close>

theorem C1_developer_over_maximum_accepted:
  "tier_max DEVELOPER < 10
   \<and> RoleRequest ''test-project'' ''test-user'' DEVELOPER 10 ''Testing the system'' None True None
       = Inr developer_request
   \<and> validate_request lib settings_36h developer_request = Inr True"
  by (simp add: tier_max_def RoleRequest_def validate_duration_def developer_request_def
        validate_request_def settings_36h_def default_settings_def)

text \<open>
  C8, as the code has it. The origin check returns \<open>True\<close> only for an address that
  parses and lies in one of the configured ranges; on a string that does not parse it
  returns \<open>False\<close>, and it never raises. A request that carries a non-empty address
  passes validation only if its address is accepted in this way. A request without an
  address, or with the empty string as its address, skips the check: its validation
  is decided by the MFA and duration checks alone.
\<close>

theorem C8_origin_check_of_nonempty_address:
  "(is_ip_allowed lib cfg addr = Inr True
      \<longrightarrow> (\<exists>ip. ip_address lib addr = Some ip \<and>
            (\<exists>cidr \<in> set (allowed_ip_ranges cfg).
               \<exists>net. ip_network lib cidr = Some net \<and> contains lib net ip)))
   \<and> (ip_address lib addr = None \<longrightarrow> is_ip_allowed lib cfg addr = Inr False)
   \<and> (\<exists>b. is_ip_allowed lib cfg addr = Inr b)
   \<and> (rq_ip_address request = Some addr \<and> addr \<noteq> [] \<and> validate_request lib cfg request = Inr True
      \<longrightarrow> is_ip_allowed lib cfg addr = Inr True)
   \<and> (rq_ip_address request = None \<or> rq_ip_address request = Some []
      \<longrightarrow> validate_request lib cfg request
            = Inr ((mfa_required cfg \<longrightarrow> rq_mfa_used request)
                   \<and> rq_duration_hours request \<le> max_session_duration cfg div 3600))"
proof (intro conjI impI)
  assume "is_ip_allowed lib cfg addr = Inr True"
  then show "\<exists>ip. ip_address lib addr = Some ip \<and>
      (\<exists>cidr \<in> set (allowed_ip_ranges cfg). \<exists>net. ip_network lib cidr = Some net \<and> contains lib net ip)"
    by (rule is_ip_allowed_True)
next
  assume "ip_address lib addr = None"
  then show "is_ip_allowed lib cfg addr = Inr False"
    by (rule is_ip_allowed_unparseable)
next
  show "\<exists>b. is_ip_allowed lib cfg addr = Inr b"
    by (rule is_ip_allowed_returns)
next
  assume a: "rq_ip_address request = Some addr \<and> addr \<noteq> [] \<and> validate_request lib cfg request = Inr True"
  obtain b where b: "is_ip_allowed lib cfg addr = Inr b"
    using is_ip_allowed_returns by blast
  with a show "is_ip_allowed lib cfg addr = Inr True"
    by (cases b) (auto simp: validate_request_def)
next
  assume "rq_ip_address request = None \<or> rq_ip_address request = Some []"
  then show "validate_request lib cfg request
            = Inr ((mfa_required cfg \<longrightarrow> rq_mfa_used request)
                   \<and> rq_duration_hours request \<le> max_session_duration cfg div 3600)"
    by (auto simp: validate_request_def)
qed

theorem C8_origin_check_of_nonempty_address_witness:
  "is_ip_allowed ipv4_lib default_settings ''10.1.1.1'' = Inr True
   \<and> (\<exists>ip. ip_address ipv4_lib ''10.1.1.1'' = Some ip \<and>
        (\<exists>cidr \<in> set (allowed_ip_ranges default_settings).
           \<exists>net. ip_network ipv4_lib cidr = Some net \<and> contains ipv4_lib net ip))
   \<and> ip_address ipv4_lib ''invalid-ip'' = None
   \<and> is_ip_allowed ipv4_lib default_settings ''invalid-ip'' = Inr False
   \<and> rq_ip_address read_only_request = None
   \<and> validate_request ipv4_lib settings_36h read_only_request = Inr True"
proof -
  have allowed: "is_ip_allowed ipv4_lib default_settings ''10.1.1.1'' = Inr True"
    by code_simp
  have unparseable: "ip_address ipv4_lib ''invalid-ip'' = None"
    by code_simp
  have absent: "rq_ip_address read_only_request = None"
    by (simp add: read_only_request_def)
  from allowed
    C8_origin_check_of_nonempty_address [where lib = ipv4_lib and cfg = default_settings
      and addr = "''10.1.1.1''"]
  have "\<exists>ip. ip_address ipv4_lib ''10.1.1.1'' = Some ip \<and>
        (\<exists>cidr \<in> set (allowed_ip_ranges default_settings).
           \<exists>net. ip_network ipv4_lib cidr = Some net \<and> contains ipv4_lib net ip)"
    by blast
  moreover from unparseable
    C8_origin_check_of_nonempty_address [where lib = ipv4_lib and cfg = default_settings
      and addr = "''invalid-ip''"]
  have "is_ip_allowed ipv4_lib default_settings ''invalid-ip'' = Inr False"
    by blast
  moreover from absent
    C8_origin_check_of_nonempty_address [where lib = ipv4_lib and cfg = settings_36h
      and request = read_only_request]
  have "validate_request ipv4_lib settings_36h read_only_request
          = Inr ((mfa_required settings_36h \<longrightarrow> rq_mfa_used read_only_request)
                 \<and> rq_duration_hours read_only_request \<le> max_session_duration settings_36h div 3600)"
    by blast
  then have "validate_request ipv4_lib settings_36h read_only_request = Inr True"
    by (simp add: read_only_request_def settings_36h_def default_settings_def)
  ultimately show ?thesis using allowed unparseable absent by blast
qed

theorem C8_empty_address_counterexample:
  "rq_ip_address (read_only_request\<lparr>rq_ip_address := Some []\<rparr>) = Some []
   \<and> ip_address ipv4_lib [] = None
   \<and> is_ip_allowed ipv4_lib settings_36h [] = Inr False
   \<and> validate_request ipv4_lib settings_36h (read_only_request\<lparr>rq_ip_address := Some []\<rparr>)
       = Inr True"
  by (intro conjI) code_simp+

text \<open>
  C9. The external id is a function of the project, the user and the hour in which the
  clock is read: two readings in the same hour give the same token, and the token has
  16 characters when the digest has at least 16 (SHA-256 gives 64).
\<close>

theorem C9_external_id_per_hour:
  "(hour_window t1 = hour_window t2
      \<longrightarrow> get_external_id lib t1 project user = get_external_id lib t2 project user)
   \<and> ((\<forall>d. length (sha256_hexdigest lib d) \<ge> 16)
      \<longrightarrow> length (get_external_id lib t1 project user) = 16)"
  by (simp add: get_external_id_def)

theorem C9_external_id_per_hour_witness:
  "hour_window 3600000000 = hour_window 7199999999
   \<and> get_external_id ipv4_lib 3600000000 ''test-project'' ''test-user''
       = get_external_id ipv4_lib 7199999999 ''test-project'' ''test-user''
   \<and> (\<forall>d. length (sha256_hexdigest ipv4_lib d) \<ge> 16)
   \<and> length (get_external_id ipv4_lib 3600000000 ''test-project'' ''test-user'') = 16"
proof -
  have h: "hour_window 3600000000 = hour_window 7199999999"
    by (simp add: hour_window_def)
  have d: "\<forall>d. length (sha256_hexdigest ipv4_lib d) \<ge> 16"
    by (auto simp: ipv4_lib_def padded_digest_def min_def)
  from h d C9_external_id_per_hour
    [where ?t1.0 = 3600000000 and ?t2.0 = 7199999999 and lib = ipv4_lib
       and project = "''test-project''" and user = "''test-user''"]
  show ?thesis by blast
qed

section \<open>Policy rendering\<close>










section \<open>Permission boundaries and provisioning\<close>

lemma provisioned_role_without_boundary:
  "map ir_permissions_boundary
     (iam_roles (snd (create_temporary_role stocked_world settings_36h read_only_request
                        ''0b1f6c1e-7c1d-4a5e-9f57-2d8a6a1c9e11''))) = [None]"
  by code_simp

lemma self_escalation_not_denied:
  "\<not> denies (create_permission_boundary READ_ONLY) ''kms:ScheduleKeyDeletion''"
  "\<not> denies (create_permission_boundary DEVELOPER) ''iam:UpdateAssumeRolePolicy''"
  "\<not> denies (create_permission_boundary ADMIN) ''iam:CreateRole''"
  "\<not> denies (create_permission_boundary BREAK_GLASS) ''iam:CreateRole''"
  by code_simp+

lemma self_escalation_members:
  "''kms:ScheduleKeyDeletion'' \<in> set self_escalation_actions"
  "''iam:UpdateAssumeRolePolicy'' \<in> set self_escalation_actions"
  "''iam:CreateRole'' \<in> set self_escalation_actions"
  by (simp_all add: self_escalation_actions_def role_policy_mutation_actions_def
        key_deletion_actions_def)

text \<open>
  C2, as the code has it. \<open>create_permission_boundary\<close> gives one fixed document per
  tier. The read-only document denies every action of the \<open>iam:\<close> namespace, so every
  role or policy mutation, and no key deletion. The developer document denies exactly
  the eight actions that it names, which leaves other role and policy mutations such as
  \<open>iam:UpdateAssumeRolePolicy\<close> and \<open>iam:CreatePolicyVersion\<close> open. The admin document
  denies exactly five account and organization actions and so none of the
  self-escalation actions, and the break-glass document denies nothing. No tier has a
  document that denies all the self-escalation actions.
\<close>

theorem C2_boundary_documents_per_tier:
  "(\<forall>a. take 4 a = ''iam:'' \<longrightarrow> denies (create_permission_boundary READ_ONLY) a)
   \<and> (\<forall>a \<in> set role_policy_mutation_actions. denies (create_permission_boundary READ_ONLY) a)
   \<and> (\<forall>a \<in> set key_deletion_actions. \<not> denies (create_permission_boundary READ_ONLY) a)
   \<and> (\<forall>a. denies (create_permission_boundary DEVELOPER) a
          \<longleftrightarrow> a \<in> set [''iam:CreateRole'', ''iam:DeleteRole'', ''iam:AttachRolePolicy'',
                         ''iam:DetachRolePolicy'', ''iam:PutRolePolicy'', ''iam:DeleteRolePolicy'',
                         ''kms:DeleteKey'', ''kms:ScheduleKeyDeletion''])
   \<and> \<not> denies (create_permission_boundary DEVELOPER) ''iam:UpdateAssumeRolePolicy''
   \<and> \<not> denies (create_permission_boundary DEVELOPER) ''iam:CreatePolicyVersion''
   \<and> (\<forall>a. denies (create_permission_boundary ADMIN) a
          \<longleftrightarrow> a \<in> set [''iam:DeleteAccountPasswordPolicy'', ''iam:DeleteAccountAlias'',
                         ''iam:DeleteAccount'', ''organizations:LeaveOrganization'',
                         ''organizations:DeleteOrganization''])
   \<and> (\<forall>a \<in> set self_escalation_actions. \<not> denies (create_permission_boundary ADMIN) a)
   \<and> (\<forall>a. \<not> denies (create_permission_boundary BREAK_GLASS) a)
   \<and> (\<forall>tier. \<exists>a \<in> set self_escalation_actions. \<not> denies (create_permission_boundary tier) a)"
proof (intro conjI)
  show "\<forall>a. take 4 a = ''iam:'' \<longrightarrow> denies (create_permission_boundary READ_ONLY) a"
  proof (intro allI impI)
    fix a :: string
    assume "take 4 a = ''iam:''"
    then have "take (Suc (Suc (Suc (Suc 0)))) a = ''iam:''"
      by (simp add: eval_nat_numeral)
    then have "action_matches ''iam:*'' a"
      by (simp add: action_matches_def)
    then show "denies (create_permission_boundary READ_ONLY) a"
      by (auto simp: denies_def create_permission_boundary_def)
  qed
next
  have "list_all (denies (create_permission_boundary READ_ONLY)) role_policy_mutation_actions"
    by code_simp
  then show "\<forall>a \<in> set role_policy_mutation_actions. denies (create_permission_boundary READ_ONLY) a"
    by (simp add: list_all_iff)
next
  have "list_all (\<lambda>a. \<not> denies (create_permission_boundary READ_ONLY) a) key_deletion_actions"
    by code_simp
  then show "\<forall>a \<in> set key_deletion_actions. \<not> denies (create_permission_boundary READ_ONLY) a"
    by (simp add: list_all_iff)
next
  show "\<forall>a. denies (create_permission_boundary DEVELOPER) a
          \<longleftrightarrow> a \<in> set [''iam:CreateRole'', ''iam:DeleteRole'', ''iam:AttachRolePolicy'',
                         ''iam:DetachRolePolicy'', ''iam:PutRolePolicy'', ''iam:DeleteRolePolicy'',
                         ''kms:DeleteKey'', ''kms:ScheduleKeyDeletion'']"
    by (auto simp: denies_def create_permission_boundary_def action_matches_def)
next
  show "\<not> denies (create_permission_boundary DEVELOPER) ''iam:UpdateAssumeRolePolicy''"
    by code_simp
next
  show "\<not> denies (create_permission_boundary DEVELOPER) ''iam:CreatePolicyVersion''"
    by code_simp
next
  show "\<forall>a. denies (create_permission_boundary ADMIN) a
          \<longleftrightarrow> a \<in> set [''iam:DeleteAccountPasswordPolicy'', ''iam:DeleteAccountAlias'',
                         ''iam:DeleteAccount'', ''organizations:LeaveOrganization'',
                         ''organizations:DeleteOrganization'']"
    by (auto simp: denies_def create_permission_boundary_def action_matches_def)
next
  have "list_all (\<lambda>a. \<not> denies (create_permission_boundary ADMIN) a) self_escalation_actions"
    by code_simp
  then show "\<forall>a \<in> set self_escalation_actions. \<not> denies (create_permission_boundary ADMIN) a"
    by (simp add: list_all_iff)
next
  show "\<forall>a. \<not> denies (create_permission_boundary BREAK_GLASS) a"
    by (simp add: denies_def create_permission_boundary_def)
next
  show "\<forall>tier. \<exists>a \<in> set self_escalation_actions. \<not> denies (create_permission_boundary tier) a"
  proof
    fix tier
    show "\<exists>a \<in> set self_escalation_actions. \<not> denies (create_permission_boundary tier) a"
      using self_escalation_not_denied self_escalation_members
      by (cases tier) blast+
  qed
qed

theorem C2_boundary_documents_per_tier_witness:
  "take 4 ''iam:UpdateAssumeRolePolicy'' = ''iam:''
   \<and> denies (create_permission_boundary READ_ONLY) ''iam:UpdateAssumeRolePolicy''
   \<and> ''iam:CreatePolicyVersion'' \<in> set role_policy_mutation_actions
   \<and> denies (create_permission_boundary READ_ONLY) ''iam:CreatePolicyVersion''
   \<and> ''kms:ScheduleKeyDeletion'' \<in> set key_deletion_actions
   \<and> \<not> denies (create_permission_boundary READ_ONLY) ''kms:ScheduleKeyDeletion''
   \<and> denies (create_permission_boundary DEVELOPER) ''iam:PutRolePolicy''
   \<and> ''iam:PutRolePolicy'' \<in> set self_escalation_actions
   \<and> \<not> denies (create_permission_boundary ADMIN) ''iam:PutRolePolicy''"
proof -
  have m0: "take 4 ''iam:UpdateAssumeRolePolicy'' = ''iam:''"
    by simp
  have m1: "''iam:CreatePolicyVersion'' \<in> set role_policy_mutation_actions"
    by (simp add: role_policy_mutation_actions_def)
  have m2: "''kms:ScheduleKeyDeletion'' \<in> set key_deletion_actions"
    by (simp add: key_deletion_actions_def)
  have m3: "''iam:PutRolePolicy'' \<in> set self_escalation_actions"
    by (simp add: self_escalation_actions_def role_policy_mutation_actions_def)
  have m4: "''iam:PutRolePolicy'' \<in> set [''iam:CreateRole'', ''iam:DeleteRole'', ''iam:AttachRolePolicy'',
                         ''iam:DetachRolePolicy'', ''iam:PutRolePolicy'', ''iam:DeleteRolePolicy'',
                         ''kms:DeleteKey'', ''kms:ScheduleKeyDeletion'']"
    by simp
  from m0 m1 m2 m3 m4 C2_boundary_documents_per_tier show ?thesis by blast
qed

theorem C2_admin_boundary_counterexample:
  "\<not> denies (create_permission_boundary ADMIN) ''iam:PutRolePolicy''"
  by code_simp

section \<open>Audit entries\<close>

lemma assume_role_not_active:
  "rs_status session \<noteq> ACTIVE \<Longrightarrow> assume_role w session session_name = (Inr None, w)"
  by (simp add: assume_role_def assume_role_try_def)

lemma create_session_record_stores_nothing:
  "fst (create_session_record w request) = None
   \<and> sessions_table (snd (create_session_record w request)) = sessions_table w
   \<and> audit_table (snd (create_session_record w request)) = audit_table w"
  by (cases "fault w PutItem")
     (simp_all add: create_session_record_def create_session_def uuid4_def put_item_accepts_def
        table_key_attributes_def RoleSession_dict_attributes_def Let_def)

lemma request_role_stores_nothing:
  "fst (request_role w lib cfg request) = Inr None
   \<and> sessions_table (snd (request_role w lib cfg request)) = sessions_table w
   \<and> audit_table (snd (request_role w lib cfg request)) = audit_table w"
proof -
  obtain b where b: "validate_request lib cfg request = Inr b"
    using validate_request_returns by blast
  show ?thesis
  proof (cases b)
    case False
    with b show ?thesis by (simp add: request_role_not_valid)
  next
    case True
    let ?request = "request\<lparr>rq_external_id :=
        Some (get_external_id lib (clock w) (rq_project_id request) (rq_user_id request))\<rparr>"
    obtain r v where rv: "create_session_record w ?request = (r, v)"
      by (cases "create_session_record w ?request")
    with create_session_record_stores_nothing [of w ?request]
    have "r = None" and "sessions_table v = sessions_table w" and "audit_table v = audit_table w"
      by simp_all
    with b True rv show ?thesis
      by (simp add: request_role_def request_role_try_def Let_def)
  qed
qed

text \<open>
  C4. \<open>assume_role\<close> on the PENDING session of the test fixture returns \<open>None\<close> and
  leaves the world as it was: no audit entry. On an ACTIVE session whose expiry has
  passed it stores EXPIRED and returns \<open>None\<close>, again without an audit entry. A
  \<open>request_role\<close> that passes validation and whose session record is not stored
  returns \<open>None\<close> without an audit entry.
\<close>

theorem C4_failure_branches_write_no_audit_entry:
  "assume_role empty_world sample_session None = (Inr None, empty_world)
   \<and> fst (assume_role (world_after_expiry ACTIVE) (sample_session\<lparr>rs_status := ACTIVE\<rparr>) None)
       = Inr None
   \<and> map rs_status
        (sessions_table
           (snd (assume_role (world_after_expiry ACTIVE) (sample_session\<lparr>rs_status := ACTIVE\<rparr>) None)))
       = [EXPIRED]
   \<and> audit_table
        (snd (assume_role (world_after_expiry ACTIVE) (sample_session\<lparr>rs_status := ACTIVE\<rparr>) None))
       = []
   \<and> validate_request ipv4_lib settings_36h read_only_request = Inr True
   \<and> fst (request_role empty_world ipv4_lib settings_36h read_only_request) = Inr None
   \<and> audit_table (snd (request_role empty_world ipv4_lib settings_36h read_only_request)) = []"
proof (intro conjI)
  show "assume_role empty_world sample_session None = (Inr None, empty_world)"
    by (simp add: assume_role_def assume_role_try_def sample_session_def)
qed code_simp+

section \<open>Template lookup\<close>

lemma select_template_without_stored_template:
  "get_policy_template w tier = Inr None \<Longrightarrow>
     select_template w tier = Inl (AttributeError ''DEFAULT_TEMPLATES'')"
  by (simp add: select_template_def policy_manager_DEFAULT_TEMPLATES_def
        PolicyManager_attributes_def)

lemma create_temporary_role_without_stored_template:
  "get_policy_template w (rq_permission_tier request) = Inr None \<Longrightarrow>
     create_temporary_role w cfg request session_id = (None, w)"
  by (simp add: create_temporary_role_def create_temporary_role_try_def
        select_template_without_stored_template)

text \<open>
  C6. The read-only tier has a default template and the store of the empty world has no
  template. The lookup of \<open>DEFAULT_TEMPLATES\<close> on the \<open>PolicyManager\<close> instance raises
  \<open>AttributeError\<close>, and \<open>_create_temporary_role\<close> returns \<open>None\<close> without creating a
  role; with a stored template the same call creates the role and returns its ARN.
\<close>

theorem C6_missing_template_fails_provisioning:
  "DEFAULT_TEMPLATES READ_ONLY \<noteq> None
   \<and> get_policy_template empty_world READ_ONLY = Inr None
   \<and> select_template empty_world READ_ONLY = Inl (AttributeError ''DEFAULT_TEMPLATES'')
   \<and> fst (create_temporary_role empty_world settings_36h read_only_request
            ''0b1f6c1e-7c1d-4a5e-9f57-2d8a6a1c9e11'') = None
   \<and> iam_roles (snd (create_temporary_role empty_world settings_36h read_only_request
                       ''0b1f6c1e-7c1d-4a5e-9f57-2d8a6a1c9e11'')) = []
   \<and> fst (create_temporary_role stocked_world settings_36h read_only_request
            ''0b1f6c1e-7c1d-4a5e-9f57-2d8a6a1c9e11'')
       = Some ''arn:aws:iam::None:role/temp-role-test-project-0b1f6c1e''
   \<and> map ir_role_name
        (iam_roles (snd (create_temporary_role stocked_world settings_36h read_only_request
                           ''0b1f6c1e-7c1d-4a5e-9f57-2d8a6a1c9e11'')))
       = [''temp-role-test-project-0b1f6c1e'']"
  by (intro conjI) code_simp+

section \<open>Status transitions\<close>

lemma update_session_status_no_fault:
  "fault w UpdateItem = None \<Longrightarrow>
     update_session_status w project sid st None
       = (Inr True, w\<lparr>sessions_table := update_item (project, sid) st None (sessions_table w)\<rparr>)"
  by (simp add: update_session_status_def)

lemma vendor_log_audit_event_no_fault:
  "fault w AuditPutItem = None \<Longrightarrow>
     \<exists>entry. vendor_log_audit_event w user action tier res duration details
       = (Inr (), w\<lparr>uuid_next := Suc (uuid_next w), audit_table := audit_table w @ [entry]\<rparr>)"
proof -
  assume "fault w AuditPutItem = None"
  then have "vendor_log_audit_event w user action tier res duration details
       = (Inr (), w\<lparr>uuid_next := Suc (uuid_next w),
                    audit_table := audit_table w
                      @ [\<lparr>al_timestamp = clock w, al_request_id = uuid_source w (uuid_next w),
                          al_user_id = user, al_action = action, al_permission_tier = Some tier,
                          al_session_duration = duration, al_source_ip = None, al_mfa_used = False,
                          al_result = res, al_error_details = details\<rparr>]\<rparr>)"
    by (simp add: vendor_log_audit_event_def uuid4_def log_audit_event_def)
  then show ?thesis by (rule exI)
qed

lemma find_update_item:
  "find (\<lambda>t. session_key t = k) tbl = Some s \<Longrightarrow>
     find (\<lambda>t. session_key t = k) (update_item k st None tbl) = Some (s\<lparr>rs_status := st\<rparr>)"
  by (induction tbl) (auto simp: update_item_def session_key_def split: if_splits)

lemma send_break_glass_notification_tables:
  "sessions_table (send_break_glass_notification w cfg session) = sessions_table w
   \<and> fault (send_break_glass_notification w cfg session) = fault w"
  by (simp add: send_break_glass_notification_def split: option.splits)

lemma revoke_session_no_fault:
  assumes "fault w GetItem = None" and "fault w UpdateItem = None" and "fault w AuditPutItem = None"
    and "find (\<lambda>t. session_key t = (project, sid)) (sessions_table w) = Some s"
  shows "\<exists>w'. revoke_session w cfg project sid = (True, w')
           \<and> sessions_table w' = update_item (project, sid) REVOKED None (sessions_table w)
           \<and> fault w' = fault w"
proof -
  let ?w1 = "w\<lparr>sessions_table := update_item (project, sid) REVOKED None (sessions_table w)\<rparr>"
  have got: "get_session w project sid = Inr (Some s)"
    using assms(1,4) by (simp add: get_session_def)
  have upd: "update_session_status w project sid REVOKED None = (Inr True, ?w1)"
    using assms(2) by (rule update_session_status_no_fault)
  have "fault ?w1 AuditPutItem = None"
    using assms(3) by simp
  then obtain entry where
    logged: "vendor_log_audit_event ?w1 (rs_user_id s) ''ROLE_REVOKED'' (rs_permission_tier s)
               ''SUCCESS'' None None
             = (Inr (), ?w1\<lparr>uuid_next := Suc (uuid_next ?w1), audit_table := audit_table ?w1 @ [entry]\<rparr>)"
    using vendor_log_audit_event_no_fault by blast
  show ?thesis
    using got upd logged send_break_glass_notification_tables
    by (simp add: revoke_session_def revoke_session_try_def)
qed

text \<open>
  C3, as the code has it. The status update carries no condition on the stored status:
  when the store answers, \<open>update_session_status\<close> reports success and the stored
  session has the new status. So \<open>revoke_session\<close> on a stored session, whatever its
  status, the terminal ones included, returns \<open>True\<close>, and the session read back
  afterwards is REVOKED.
\<close>

theorem C3_status_update_is_unconditional:
  assumes "fault w GetItem = None" and "fault w UpdateItem = None" and "fault w AuditPutItem = None"
    and "find (\<lambda>t. session_key t = (project, sid)) (sessions_table w) = Some s"
  shows "fst (update_session_status w project sid st None) = Inr True
         \<and> get_session (snd (update_session_status w project sid st None)) project sid
             = Inr (Some (s\<lparr>rs_status := st\<rparr>))
         \<and> fst (revoke_session w cfg project sid) = True
         \<and> get_session (snd (revoke_session w cfg project sid)) project sid
             = Inr (Some (s\<lparr>rs_status := REVOKED\<rparr>))"
proof -
  have "get_session (snd (update_session_status w project sid st None)) project sid
          = Inr (Some (s\<lparr>rs_status := st\<rparr>))"
    using assms(1,2) find_update_item [OF assms(4)]
    by (simp add: update_session_status_no_fault get_session_def)
  moreover obtain w' where "revoke_session w cfg project sid = (True, w')"
    and "sessions_table w' = update_item (project, sid) REVOKED None (sessions_table w)"
    and "fault w' = fault w"
    using revoke_session_no_fault [OF assms] by blast
  moreover from this have "get_session w' project sid = Inr (Some (s\<lparr>rs_status := REVOKED\<rparr>))"
    using assms(1) find_update_item [OF assms(4)] by (simp add: get_session_def)
  ultimately show ?thesis
    using assms(2) by (simp add: update_session_status_no_fault)
qed

theorem C3_status_update_is_unconditional_witness:
  "find (\<lambda>t. session_key t = (''test-project'', ''0b1f6c1e-7c1d-4a5e-9f57-2d8a6a1c9e11''))
     (sessions_table (world_after_expiry EXPIRED)) = Some (sample_session\<lparr>rs_status := EXPIRED\<rparr>)
   \<and> fst (revoke_session (world_after_expiry EXPIRED) default_settings ''test-project''
            ''0b1f6c1e-7c1d-4a5e-9f57-2d8a6a1c9e11'') = True
   \<and> get_session
        (snd (revoke_session (world_after_expiry EXPIRED) default_settings ''test-project''
                ''0b1f6c1e-7c1d-4a5e-9f57-2d8a6a1c9e11''))
        ''test-project'' ''0b1f6c1e-7c1d-4a5e-9f57-2d8a6a1c9e11''
       = Inr (Some (sample_session\<lparr>rs_status := REVOKED\<rparr>))"
proof -
  have f: "fault (world_after_expiry EXPIRED) GetItem = None"
    "fault (world_after_expiry EXPIRED) UpdateItem = None"
    "fault (world_after_expiry EXPIRED) AuditPutItem = None"
    by (simp_all add: world_after_expiry_def empty_world_def)
  have stored:
    "find (\<lambda>t. session_key t = (''test-project'', ''0b1f6c1e-7c1d-4a5e-9f57-2d8a6a1c9e11''))
       (sessions_table (world_after_expiry EXPIRED)) = Some (sample_session\<lparr>rs_status := EXPIRED\<rparr>)"
    by (simp add: world_after_expiry_def session_key_def sample_session_def)
  from C3_status_update_is_unconditional [OF f stored, of REVOKED default_settings] stored
  show ?thesis by simp
qed

theorem C3_revoke_of_expired_counterexample:
  "rs_status (sample_session\<lparr>rs_status := EXPIRED\<rparr>) = EXPIRED
   \<and> sessions_table (world_after_expiry EXPIRED) = [sample_session\<lparr>rs_status := EXPIRED\<rparr>]
   \<and> fst (revoke_session (world_after_expiry EXPIRED) default_settings ''test-project''
            ''0b1f6c1e-7c1d-4a5e-9f57-2d8a6a1c9e11'') = True
   \<and> map rs_status
        (sessions_table
           (snd (revoke_session (world_after_expiry EXPIRED) default_settings ''test-project''
                   ''0b1f6c1e-7c1d-4a5e-9f57-2d8a6a1c9e11'')))
       = [REVOKED]"
  by (intro conjI) code_simp+

section \<open>The expiry sweep\<close>

lemma get_expired_sessions_selects_nothing:
  "get_expired_sessions w = Inr [] \<or> (\<exists>e. get_expired_sessions w = Inl e)"
  by (simp add: get_expired_sessions_def query_accepts_def split: option.splits)

lemma cleanup_expired_sessions_changes_nothing: "cleanup_expired_sessions w = (0, w)"
  using get_expired_sessions_selects_nothing [of w]
  by (auto simp: cleanup_expired_sessions_def cleanup_expired_sessions_try_def)

text \<open>
  C5. The table holds one ACTIVE session whose expiry lies before the clock. The query
  of \<open>get_expired_sessions\<close> is refused, the function returns the empty list, and the
  sweep returns 0 and leaves the session ACTIVE.
\<close>

theorem C5_sweep_leaves_expired_session_active:
  "sessions_table (world_after_expiry ACTIVE) = [sample_session\<lparr>rs_status := ACTIVE\<rparr>]
   \<and> rs_expires_at (sample_session\<lparr>rs_status := ACTIVE\<rparr>) < clock (world_after_expiry ACTIVE)
   \<and> fault (world_after_expiry ACTIVE) Query = None
   \<and> get_expired_sessions (world_after_expiry ACTIVE) = Inr []
   \<and> fst (cleanup_expired_sessions (world_after_expiry ACTIVE)) = 0
   \<and> map rs_status (sessions_table (snd (cleanup_expired_sessions (world_after_expiry ACTIVE))))
       = [ACTIVE]"
  by (intro conjI) code_simp+

end
